theory Spec2Isabelle
  imports Complex_Main "HOL-Library.Word"
begin

section \<open>Local Whisper server: the transcription endpoint\<close>

text \<open>
  A shallow embedding of \<^verbatim>\<open>src/whisper-server/main.py\<close>: the handler
  \<^verbatim>\<open>transcribe_audio\<close>, the health endpoint and the two exception handlers that turn
  the handler's outcome into an HTTP response. The speech engine, the disk, the random
  identifier and the clock are what the handler does not control; they are parameters.
\<close>

subsection \<open>Python primitives the handler uses\<close>

text \<open>
  A Python \<^verbatim>\<open>str\<close> is modelled as a list of 8-bit characters (code points below 256).
  \<^verbatim>\<open>str.isspace\<close> on that range: U+0009..U+000D, U+001C..U+001F, U+0020, U+0085, U+00A0.
\<close>

definition isspace :: "char \<Rightarrow> bool" where
  "isspace c =
     (let n = (of_char c :: nat)
      in (9 \<le> n \<and> n \<le> 13) \<or> (28 \<le> n \<and> n \<le> 31) \<or> n = 32 \<or> n = 133 \<or> n = 160)"

text \<open>\<^verbatim>\<open>s.strip()\<close>: drop the whitespace at the front, then the whitespace at the back.\<close>

definition py_strip :: "string \<Rightarrow> string" where
  "py_strip s = rev (dropWhile isspace (rev (dropWhile isspace s)))"

text \<open>\<^verbatim>\<open>sep.join(xs)\<close>: the separator stands between neighbours only.\<close>

fun py_join :: "string \<Rightarrow> string list \<Rightarrow> string" where
  "py_join sep [] = []"
| "py_join sep [x] = x"
| "py_join sep (x # y # ys) = x @ sep @ py_join sep (y # ys)"

text \<open>
  \<^verbatim>\<open>s.split(c)\<close> for a one-character separator: the pieces between the separators,
  never an empty list, so that the index \<^verbatim>\<open>[-1]\<close> cannot raise.
\<close>

fun py_split :: "char \<Rightarrow> string \<Rightarrow> string list" where
  "py_split sep [] = [[]]"
| "py_split sep (c # cs) =
     (if c = sep then [] # py_split sep cs
      else (case py_split sep cs of [] \<Rightarrow> [[c]] | w # ws \<Rightarrow> (c # w) # ws))"

text \<open>
  \<^verbatim>\<open>round(x)\<close> of a float with no digits argument: the nearest integer, a tie going
  to the even neighbour. Floats are idealised as reals.
\<close>

definition py_round :: "real \<Rightarrow> int" where
  "py_round x =
     (let f = \<lfloor>x\<rfloor>; d = x - of_int f
      in if d < 1 / 2 then f else if 1 / 2 < d then f + 1 else if even f then f else f + 1)"

text \<open>
  \<^verbatim>\<open>uuid.uuid4().hex\<close> is \<^verbatim>\<open>'%032x' % self.int\<close>: the 128-bit value in lower-case
  hexadecimal, padded with zeros to 32 digits.
\<close>

definition hex_digit :: "nat \<Rightarrow> char" where
  "hex_digit n = ''0123456789abcdef'' ! n"

fun hex_width :: "nat \<Rightarrow> nat \<Rightarrow> string" where
  "hex_width 0 n = []"
| "hex_width (Suc k) n = hex_width k (n div 16) @ [hex_digit (n mod 16)]"

definition uuid_hex :: "128 word \<Rightarrow> string" where
  "uuid_hex u = hex_width 32 (unat u)"

subsection \<open>Data\<close>

type_synonym byte = "8 word"

text \<open>The upload: its declared file name and the bytes \<^verbatim>\<open>await file.read()\<close> returns.\<close>

record UploadFile =
  filename :: string
  file_bytes :: "byte list"

text \<open>The pydantic response model; \<^verbatim>\<open>duration\<close> is declared a float.\<close>

record TranscriptionResponse =
  resp_text :: string
  resp_model :: string
  resp_duration :: real

text \<open>
  What a handler can raise: FastAPI's \<^verbatim>\<open>HTTPException(status_code, detail)\<close>, or any
  other exception, of which only \<^verbatim>\<open>str(exc)\<close> is ever read.
\<close>

datatype exn = HTTPException nat string | Exception string

datatype json = JStr string | JNum real | JBool bool

record JSONResponse =
  status_code :: nat
  content :: "(string \<times> json) list"

text \<open>
  The engine, \<^verbatim>\<open>whisper_model.transcribe(path, language=...)\<close> followed by the draining
  of the segment generator: given the path, what is stored there and the language hint, it
  either raises (\<open>Inl\<close>, the message) or yields the segments' texts in order. The fixed
  arguments (beam size 5, the VAD filter) are part of the engine's behaviour.
\<close>

type_synonym WhisperModel = "string \<Rightarrow> byte list option \<Rightarrow> string option \<Rightarrow> string + string list"

text \<open>
  The process state: the global \<^verbatim>\<open>whisper_model\<close> (\<open>None\<close> until loaded), the
  configured \<^verbatim>\<open>MODEL_SIZE\<close>, the files on disk by path, and the log of the files the
  process created and removed, in order.
\<close>

datatype fs_op = Create string | Remove string

record server =
  whisper_model :: "WhisperModel option"
  MODEL_SIZE :: string
  fs :: "string \<rightharpoonup> byte list"
  fs_log :: "fs_op list"

text \<open>
  What one request draws from its surroundings: the random UUID, how
  \<^verbatim>\<open>open(temp_filename, "wb")\<close> and \<^verbatim>\<open>f.write(content)\<close> go (the open may fail; the
  write may fail after the file was created, leaving a prefix), and the two readings of
  \<^verbatim>\<open>time.time()\<close>, before and after the transcription.
\<close>

datatype io_result = IoOk | OpenFails string | WriteFails nat string

record env =
  uuid4 :: "128 word"
  disk :: io_result
  time_start :: real
  time_end :: real

subsection \<open>The disk\<close>

fun open_write :: "io_result \<Rightarrow> string \<Rightarrow> byte list \<Rightarrow> server \<Rightarrow> string option \<times> server" where
  "open_write IoOk path bs st =
     (None, st\<lparr>fs := (fs st)(path \<mapsto> bs), fs_log := fs_log st @ [Create path]\<rparr>)"
| "open_write (OpenFails msg) path bs st = (Some msg, st)"
| "open_write (WriteFails n msg) path bs st =
     (Some msg, st\<lparr>fs := (fs st)(path \<mapsto> take n bs), fs_log := fs_log st @ [Create path]\<rparr>)"

definition os_path_exists :: "string \<Rightarrow> server \<Rightarrow> bool" where
  "os_path_exists path st = (case fs st path of None \<Rightarrow> False | Some _ \<Rightarrow> True)"

definition os_remove :: "string \<Rightarrow> server \<Rightarrow> server" where
  "os_remove path st = st\<lparr>fs := (fs st)(path := None), fs_log := fs_log st @ [Remove path]\<rparr>"

subsection \<open>The endpoints\<close>

text \<open>\<^verbatim>\<open>GET /health\<close>.\<close>

definition health_check :: "server \<Rightarrow> (string \<times> json) list" where
  "health_check st =
     [(''status'', JStr ''ok''),
      (''model'', JStr (MODEL_SIZE st)),
      (''ready'', JBool (case whisper_model st of None \<Rightarrow> False | Some _ \<Rightarrow> True))]"

text \<open>Line 149: the name of the temporary file.\<close>

definition temp_filename :: "128 word \<Rightarrow> string \<Rightarrow> string" where
  "temp_filename u fname =
     ''/tmp/whisper_'' @ uuid_hex u @ ''.'' @ last (py_split (CHR ''.'') fname)"

text \<open>
  Lines 152 to 179, the body of the \<^verbatim>\<open>try\<close>: write the bytes, read the clock, run the
  engine, join and strip the segments, read the clock, build the response. \<open>Inl\<close> is the
  message of the exception that body raised.
\<close>

definition try_body ::
  "WhisperModel \<Rightarrow> env \<Rightarrow> string \<Rightarrow> byte list \<Rightarrow> string \<Rightarrow> string option \<Rightarrow> server
     \<Rightarrow> (string + TranscriptionResponse) \<times> server" where
  "try_body eng e path bs mdl language st =
     (case open_write (disk e) path bs st of
        (Some msg, st1) \<Rightarrow> (Inl msg, st1)
      | (None, st1) \<Rightarrow>
          (case eng path (fs st1 path) language of
             Inl msg \<Rightarrow> (Inl msg, st1)
           | Inr segments \<Rightarrow>
               (let transcription_text = py_strip (py_join '' '' segments);
                    duration = time_end e - time_start e
                in (Inr \<lparr>resp_text = transcription_text,
                          resp_model = mdl,
                          resp_duration = of_int (py_round (duration * 1000))\<rparr>, st1))))"

text \<open>
  \<^verbatim>\<open>POST /v1/audio/transcriptions\<close>, lines 134 to 188: the readiness check, the two size
  checks, the \<^verbatim>\<open>try\<close> body, the \<^verbatim>\<open>except\<close> clause that turns any exception of the body
  into a 500, and the \<^verbatim>\<open>finally\<close> clause that removes the file if it exists. The result is
  what the handler returns or raises, and the state it leaves.
\<close>

definition transcribe_audio ::
  "server \<Rightarrow> env \<Rightarrow> UploadFile \<Rightarrow> string \<Rightarrow> string \<Rightarrow> string option \<Rightarrow> string option
     \<Rightarrow> (exn + TranscriptionResponse) \<times> server" where
  "transcribe_audio st e file mdl response_format language timestamp_granularities =
     (case whisper_model st of
        None \<Rightarrow>
          (Inl (HTTPException 503
             ''Whisper model not loaded. Please wait for server to initialize.''), st)
      | Some eng \<Rightarrow>
          (let bs = file_bytes file in
           if length bs > 100 * 1024 * 1024
           then (Inl (HTTPException 400 ''File too large (max 100MB)''), st)
           else if length bs < 1024
           then (Inl (HTTPException 400 ''File too small (may be empty)''), st)
           else
             (let path = temp_filename (uuid4 e) (filename file);
                  (r, st1) = try_body eng e path bs mdl language st;
                  r' = (case r of
                          Inl msg \<Rightarrow> Inl (HTTPException 500 (''Transcription failed: '' @ msg))
                        | Inr resp \<Rightarrow> Inr resp);
                  st2 = (if os_path_exists path st1 then os_remove path st1 else st1)
              in (r', st2))))"

subsection \<open>From the handler's outcome to the HTTP response\<close>

text \<open>
  FastAPI answers an \<^verbatim>\<open>HTTPException\<close> itself, with its status code and the body
  \<^verbatim>\<open>{"detail": detail}\<close>; the handler registered for \<^verbatim>\<open>Exception\<close> (lines 191 to
  197) answers what is left. A returned response model is serialised with status 200.
\<close>

definition http_exception_handler :: "nat \<Rightarrow> string \<Rightarrow> JSONResponse" where
  "http_exception_handler code detail =
     \<lparr>status_code = code, content = [(''detail'', JStr detail)]\<rparr>"

definition global_exception_handler :: "string \<Rightarrow> JSONResponse" where
  "global_exception_handler exc = \<lparr>status_code = 500, content = [(''error'', JStr exc)]\<rparr>"

definition serialize_response :: "TranscriptionResponse \<Rightarrow> JSONResponse" where
  "serialize_response r =
     \<lparr>status_code = 200,
      content = [(''text'', JStr (resp_text r)),
                 (''model'', JStr (resp_model r)),
                 (''duration'', JNum (resp_duration r))]\<rparr>"

fun dispatch :: "exn + TranscriptionResponse \<Rightarrow> JSONResponse" where
  "dispatch (Inr r) = serialize_response r"
| "dispatch (Inl (HTTPException code detail)) = http_exception_handler code detail"
| "dispatch (Inl (Exception msg)) = global_exception_handler msg"

definition post_transcriptions ::
  "server \<Rightarrow> env \<Rightarrow> UploadFile \<Rightarrow> string \<Rightarrow> string \<Rightarrow> string option \<Rightarrow> string option
     \<Rightarrow> JSONResponse" where
  "post_transcriptions st e file mdl response_format language timestamp_granularities =
     dispatch (fst (transcribe_audio st e file mdl response_format language
                      timestamp_granularities))"

subsection \<open>A concrete server and concrete requests\<close>

definition demo_engine :: WhisperModel where
  "demo_engine path stored language =
     (case stored of
        None \<Rightarrow> Inl ''no such file''
      | Some bs \<Rightarrow>
          if language = Some ''xx'' then Inl ''xx is not a valid language code''
          else Inr [''Hello'', '' world ''])"

definition demo_server :: server where
  "demo_server =
     \<lparr>whisper_model = Some demo_engine, MODEL_SIZE = ''small'', fs = Map.empty, fs_log = []\<rparr>"

definition loading_server :: server where
  "loading_server =
     \<lparr>whisper_model = None, MODEL_SIZE = ''small'', fs = Map.empty, fs_log = []\<rparr>"

definition demo_env :: env where
  "demo_env = \<lparr>uuid4 = 255, disk = IoOk, time_start = 10, time_end = 12.3456\<rparr>"

definition speech :: "nat \<Rightarrow> UploadFile" where
  "speech n = \<lparr>filename = ''take.2.wav'', file_bytes = replicate n 1\<rparr>"

definition noise :: "nat \<Rightarrow> UploadFile" where
  "noise n = \<lparr>filename = ''noise'', file_bytes = replicate n 0\<rparr>"




section \<open>Facts about the primitives\<close>













section \<open>The exit paths of the handler\<close>

text \<open>One equation per exit path: what is returned or raised, and the state left.\<close>

lemma transcribe_not_ready:
  "whisper_model st = None \<Longrightarrow>
   transcribe_audio st e file mdl rf lang tg =
     (Inl (HTTPException 503 ''Whisper model not loaded. Please wait for server to initialize.''), st)"
  by (simp add: transcribe_audio_def)

lemma transcribe_too_large:
  "whisper_model st = Some eng \<Longrightarrow> 104857600 < length (file_bytes file) \<Longrightarrow>
   transcribe_audio st e file mdl rf lang tg =
     (Inl (HTTPException 400 ''File too large (max 100MB)''), st)"
  by (simp add: transcribe_audio_def)

lemma transcribe_too_small:
  "whisper_model st = Some eng \<Longrightarrow> length (file_bytes file) < 1024 \<Longrightarrow>
   transcribe_audio st e file mdl rf lang tg =
     (Inl (HTTPException 400 ''File too small (may be empty)''), st)"
  by (simp add: transcribe_audio_def)

lemma transcribe_open_fails:
  "whisper_model st = Some eng \<Longrightarrow> 1024 \<le> length (file_bytes file) \<Longrightarrow>
   length (file_bytes file) \<le> 104857600 \<Longrightarrow> disk e = OpenFails msg \<Longrightarrow>
   transcribe_audio st e file mdl rf lang tg =
     (Inl (HTTPException 500 (''Transcription failed: '' @ msg)),
      let path = temp_filename (uuid4 e) (filename file)
      in if os_path_exists path st then os_remove path st else st)"
  by (simp add: transcribe_audio_def try_body_def Let_def)

lemma transcribe_write_fails:
  "whisper_model st = Some eng \<Longrightarrow> 1024 \<le> length (file_bytes file) \<Longrightarrow>
   length (file_bytes file) \<le> 104857600 \<Longrightarrow> disk e = WriteFails k msg \<Longrightarrow>
   transcribe_audio st e file mdl rf lang tg =
     (Inl (HTTPException 500 (''Transcription failed: '' @ msg)),
      let path = temp_filename (uuid4 e) (filename file)
      in st\<lparr>fs := (fs st)(path := None), fs_log := fs_log st @ [Create path, Remove path]\<rparr>)"
  by (simp add: transcribe_audio_def try_body_def Let_def os_path_exists_def os_remove_def)

lemma transcribe_engine_fails:
  "whisper_model st = Some eng \<Longrightarrow> 1024 \<le> length (file_bytes file) \<Longrightarrow>
   length (file_bytes file) \<le> 104857600 \<Longrightarrow> disk e = IoOk \<Longrightarrow>
   eng (temp_filename (uuid4 e) (filename file)) (Some (file_bytes file)) lang = Inl msg \<Longrightarrow>
   transcribe_audio st e file mdl rf lang tg =
     (Inl (HTTPException 500 (''Transcription failed: '' @ msg)),
      let path = temp_filename (uuid4 e) (filename file)
      in st\<lparr>fs := (fs st)(path := None), fs_log := fs_log st @ [Create path, Remove path]\<rparr>)"
  by (simp add: transcribe_audio_def try_body_def Let_def os_path_exists_def os_remove_def)

lemma transcribe_success:
  "whisper_model st = Some eng \<Longrightarrow> 1024 \<le> length (file_bytes file) \<Longrightarrow>
   length (file_bytes file) \<le> 104857600 \<Longrightarrow> disk e = IoOk \<Longrightarrow>
   eng (temp_filename (uuid4 e) (filename file)) (Some (file_bytes file)) lang = Inr segments \<Longrightarrow>
   transcribe_audio st e file mdl rf lang tg =
     (Inr \<lparr>resp_text = py_strip (py_join '' '' segments), resp_model = mdl,
           resp_duration = of_int (py_round ((time_end e - time_start e) * 1000))\<rparr>,
      let path = temp_filename (uuid4 e) (filename file)
      in st\<lparr>fs := (fs st)(path := None), fs_log := fs_log st @ [Create path, Remove path]\<rparr>)"
  by (simp add: transcribe_audio_def try_body_def Let_def os_path_exists_def os_remove_def)

section \<open>The claims\<close>

subsection \<open>C1: payload size validation\<close>

text \<open>
  C1 (as amended). With the engine loaded, a payload is rejected with HTTP 400 exactly when
  its size is below 1 KiB (1024 bytes, detail "File too small (may be empty)") or above
  100 MiB (104857600 bytes, detail "File too large (max 100MB)"). The comparisons of lines
  142 and 145 are strict, so the two boundary sizes themselves pass validation.
\<close>

theorem payload_size_validation:
  assumes "whisper_model st = Some eng"
  shows "(104857600 < length (file_bytes file) \<longrightarrow>
            post_transcriptions st e file mdl rf lang tg =
              \<lparr>status_code = 400, content = [(''detail'', JStr ''File too large (max 100MB)'')]\<rparr>)
       \<and> (length (file_bytes file) < 1024 \<longrightarrow>
            post_transcriptions st e file mdl rf lang tg =
              \<lparr>status_code = 400, content = [(''detail'', JStr ''File too small (may be empty)'')]\<rparr>)
       \<and> ((status_code (post_transcriptions st e file mdl rf lang tg) = 400)
            = (length (file_bytes file) < 1024 \<or> 104857600 < length (file_bytes file)))"
proof -
  let ?n = "length (file_bytes file)"
  let ?post = "post_transcriptions st e file mdl rf lang tg"
  have large: "?post = \<lparr>status_code = 400, content = [(''detail'', JStr ''File too large (max 100MB)'')]\<rparr>"
    if "104857600 < ?n"
    using assms that
    by (simp add: post_transcriptions_def transcribe_too_large http_exception_handler_def)
  have small: "?post = \<lparr>status_code = 400, content = [(''detail'', JStr ''File too small (may be empty)'')]\<rparr>"
    if "?n < 1024"
    using assms that
    by (simp add: post_transcriptions_def transcribe_too_small http_exception_handler_def)
  have inside: "status_code ?post \<noteq> 400" if lo: "1024 \<le> ?n" and hi: "?n \<le> 104857600"
  proof (cases "disk e")
    case IoOk
    show ?thesis
    proof (cases "eng (temp_filename (uuid4 e) (filename file)) (Some (file_bytes file)) lang")
      case (Inl msg)
      with assms lo hi IoOk show ?thesis
        by (simp add: post_transcriptions_def transcribe_engine_fails http_exception_handler_def)
    next
      case (Inr segments)
      with assms lo hi IoOk show ?thesis
        by (simp add: post_transcriptions_def transcribe_success serialize_response_def)
    qed
  next
    case (OpenFails msg)
    with assms lo hi show ?thesis
      by (simp add: post_transcriptions_def transcribe_open_fails http_exception_handler_def)
  next
    case (WriteFails k msg)
    with assms lo hi show ?thesis
      by (simp add: post_transcriptions_def transcribe_write_fails http_exception_handler_def)
  qed
  have "(status_code ?post = 400) = (?n < 1024 \<or> 104857600 < ?n)"
  proof (cases "?n < 1024 \<or> 104857600 < ?n")
    case True
    then show ?thesis using large small by auto
  next
    case False
    then have "1024 \<le> ?n" "?n \<le> 104857600" by auto
    then have "status_code ?post \<noteq> 400" by (rule inside)
    with False show ?thesis by simp
  qed
  with large small show ?thesis by blast
qed

text \<open>C1, at 1023 bytes, at 100 MiB + 1 byte and at 4096 bytes.\<close>

theorem payload_size_validation_witness:
  "whisper_model demo_server = Some demo_engine
   \<and> post_transcriptions demo_server demo_env (noise 1023) ''whisper-1'' ''json'' None None =
       \<lparr>status_code = 400, content = [(''detail'', JStr ''File too small (may be empty)'')]\<rparr>
   \<and> post_transcriptions demo_server demo_env (noise 104857601) ''whisper-1'' ''json'' None None =
       \<lparr>status_code = 400, content = [(''detail'', JStr ''File too large (max 100MB)'')]\<rparr>
   \<and> status_code (post_transcriptions demo_server demo_env (speech 4096) ''whisper-1'' ''json'' None None) \<noteq> 400"
  using payload_size_validation [of demo_server demo_engine "noise 1023" demo_env "''whisper-1''" "''json''" None None]
    payload_size_validation [of demo_server demo_engine "noise 104857601" demo_env "''whisper-1''" "''json''" None None]
    payload_size_validation [of demo_server demo_engine "speech 4096" demo_env "''whisper-1''" "''json''" None None]
  by (simp add: demo_server_def noise_def speech_def)

text \<open>
  C1 as stated fails: a payload of exactly 1 KiB and one of exactly 100 MiB are both
  transcribed and answered with status 200.
\<close>

theorem payload_boundary_counterexample:
  "status_code (post_transcriptions demo_server demo_env (speech 1024) ''whisper-1'' ''json'' None None) = 200
   \<and> status_code (post_transcriptions demo_server demo_env (speech 104857600) ''whisper-1'' ''json'' None None) = 200"
  by (simp add: post_transcriptions_def transcribe_audio_def try_body_def demo_server_def
      demo_env_def demo_engine_def speech_def serialize_response_def Let_def)

subsection \<open>C2: the temporary file is gone when the request returns\<close>



subsection \<open>C3: the text is the segments joined by one space, then stripped\<close>



subsection \<open>C4: the successful response\<close>




subsection \<open>C5: a failing transcription\<close>




subsection \<open>C6: no engine, no transcription\<close>

text \<open>
  C6. While no engine is loaded, every transcription request is answered with status 503,
  whatever its payload: the readiness check of line 134 comes before the payload is read.
  The state is left as it was.
\<close>

theorem not_ready_503:
  assumes "whisper_model st = None"
  shows "post_transcriptions st e file mdl rf lang tg =
           \<lparr>status_code = 503,
            content = [(''detail'',
              JStr ''Whisper model not loaded. Please wait for server to initialize.'')]\<rparr>
       \<and> snd (transcribe_audio st e file mdl rf lang tg) = st"
  using assms
  by (simp add: post_transcriptions_def transcribe_not_ready http_exception_handler_def)

text \<open>C6 on an empty payload, on a valid one and on one above 100 MiB.\<close>

theorem not_ready_503_witness:
  "status_code (post_transcriptions loading_server demo_env (noise 0) ''whisper-1'' ''json'' None None) = 503
   \<and> status_code (post_transcriptions loading_server demo_env (speech 4096) ''whisper-1'' ''json'' None None) = 503
   \<and> status_code (post_transcriptions loading_server demo_env (speech 104857601) ''whisper-1'' ''json'' None None) = 503"
proof -
  have a: "whisper_model loading_server = None"
    by (simp add: loading_server_def)
  show ?thesis
    using not_ready_503 [OF a, of demo_env "noise 0" "''whisper-1''" "''json''" None None]
      not_ready_503 [OF a, of demo_env "speech 4096" "''whisper-1''" "''json''" None None]
      not_ready_503 [OF a, of demo_env "speech 104857601" "''whisper-1''" "''json''" None None]
    by simp
qed

subsection \<open>C7: a rejected payload touches no file\<close>

text \<open>
  C7. A request rejected by the size validation (the handler raises an
  \<^verbatim>\<open>HTTPException\<close> with status 400) leaves the state as it found it: the files on
  disk are the same, and the log of created and removed files has no new entry, so no
  temporary file was created.
\<close>

theorem rejected_payload_creates_no_file:
  assumes "fst (transcribe_audio st e file mdl rf lang tg) = Inl (HTTPException 400 detail)"
  shows "snd (transcribe_audio st e file mdl rf lang tg) = st
       \<and> fs (snd (transcribe_audio st e file mdl rf lang tg)) = fs st
       \<and> fs_log (snd (transcribe_audio st e file mdl rf lang tg)) = fs_log st"
proof -
  let ?n = "length (file_bytes file)"
  from assms obtain eng where eng: "whisper_model st = Some eng"
    by (cases "whisper_model st") (auto simp: transcribe_not_ready)
  have "?n < 1024 \<or> 104857600 < ?n"
  proof (rule ccontr)
    assume "\<not> (?n < 1024 \<or> 104857600 < ?n)"
    then have lo: "1024 \<le> ?n" and hi: "?n \<le> 104857600" by auto
    show False
    proof (cases "disk e")
      case IoOk
      with assms eng lo hi show False
        by (cases "eng (temp_filename (uuid4 e) (filename file)) (Some (file_bytes file)) lang")
           (auto simp: transcribe_engine_fails transcribe_success)
    next
      case (OpenFails msg)
      with assms eng lo hi show False by (auto simp: transcribe_open_fails)
    next
      case (WriteFails k msg)
      with assms eng lo hi show False by (auto simp: transcribe_write_fails)
    qed
  qed
  with eng have "snd (transcribe_audio st e file mdl rf lang tg) = st"
    by (auto simp: transcribe_too_small transcribe_too_large)
  then show ?thesis by simp
qed

text \<open>C7 on a payload of 10 bytes: rejected, and the log of the disk stays empty.\<close>

theorem rejected_payload_creates_no_file_witness:
  "fst (transcribe_audio demo_server demo_env (noise 10) ''whisper-1'' ''json'' None None)
     = Inl (HTTPException 400 ''File too small (may be empty)'')
   \<and> fs_log (snd (transcribe_audio demo_server demo_env (noise 10) ''whisper-1'' ''json'' None None)) = []"
proof -
  have a: "fst (transcribe_audio demo_server demo_env (noise 10) ''whisper-1'' ''json'' None None)
     = Inl (HTTPException 400 ''File too small (may be empty)'')"
    by (simp add: transcribe_audio_def demo_server_def noise_def)
  from rejected_payload_creates_no_file [OF a] a show ?thesis
    by (simp add: demo_server_def)
qed

subsection \<open>C8: the advisory form fields\<close>

text \<open>
  C8. With the state (the engine among it), the surroundings, the file and the language
  hint the same, two requests that differ in the fields \<open>model\<close>, \<open>response_format\<close> and
  \<open>timestamp_granularities\<close> have the same outcome but for the echoed model: the same
  text on success, the same exception otherwise, and the same state afterwards.
\<close>

theorem advisory_fields_do_not_change_text:
  "map_sum id resp_text (fst (transcribe_audio st e file mdl rf lang tg))
     = map_sum id resp_text (fst (transcribe_audio st e file mdl' rf' lang tg'))
   \<and> fst (transcribe_audio st e file mdl' rf' lang tg')
     = map_sum id (\<lambda>r. r\<lparr>resp_model := mdl'\<rparr>) (fst (transcribe_audio st e file mdl rf lang tg))
   \<and> snd (transcribe_audio st e file mdl rf lang tg)
     = snd (transcribe_audio st e file mdl' rf' lang tg')"
  by (simp add: transcribe_audio_def try_body_def Let_def
      split: option.splits prod.splits sum.splits)

text \<open>C8 on two requests that differ in all three fields.\<close>

theorem advisory_fields_do_not_change_text_witness:
  "map_sum id resp_text
     (fst (transcribe_audio demo_server demo_env (speech 4096) ''large-v3'' ''verbose_json'' None (Some ''word'')))
     = Inr ''Hello  world''
   \<and> map_sum id resp_text
     (fst (transcribe_audio demo_server demo_env (speech 4096) ''whisper-1'' ''json'' None None))
     = Inr ''Hello  world''"
proof -
  have "map_sum id resp_text
     (fst (transcribe_audio demo_server demo_env (speech 4096) ''whisper-1'' ''json'' None None))
     = Inr ''Hello  world''"
    by (simp add: transcribe_audio_def try_body_def demo_server_def demo_env_def demo_engine_def
        speech_def Let_def py_strip_def isspace_def os_path_exists_def)
  with advisory_fields_do_not_change_text [of demo_server demo_env "speech 4096" "''whisper-1''"
      "''json''" None None "''large-v3''" "''verbose_json''" "Some ''word''"]
  show ?thesis by simp
qed

subsection \<open>C9: the name of the temporary file\<close>



subsection \<open>C10: the two readiness observations agree\<close>

text \<open>
  C10. In every state, \<^verbatim>\<open>GET /health\<close> reports \<open>ready: true\<close> exactly when a
  transcription request made in that state is not answered with status 503: both look at
  the same global, \<^verbatim>\<open>whisper_model\<close>.
\<close>

theorem readiness_observations_agree:
  "map_of (health_check st) ''ready''
     = Some (JBool (status_code (post_transcriptions st e file mdl rf lang tg) \<noteq> 503))"
proof (cases "whisper_model st")
  case None
  then show ?thesis
    by (simp add: health_check_def post_transcriptions_def transcribe_not_ready
        http_exception_handler_def)
next
  case (Some eng)
  let ?n = "length (file_bytes file)"
  have "status_code (post_transcriptions st e file mdl rf lang tg) \<noteq> 503"
  proof (cases "?n < 1024 \<or> 104857600 < ?n")
    case True
    with Some show ?thesis
      by (auto simp: post_transcriptions_def transcribe_too_small transcribe_too_large
          http_exception_handler_def)
  next
    case False
    then have lo: "1024 \<le> ?n" and hi: "?n \<le> 104857600" by auto
    show ?thesis
    proof (cases "disk e")
      case IoOk
      with Some lo hi show ?thesis
        by (cases "eng (temp_filename (uuid4 e) (filename file)) (Some (file_bytes file)) lang")
           (simp_all add: post_transcriptions_def transcribe_engine_fails transcribe_success
             http_exception_handler_def serialize_response_def)
    next
      case (OpenFails msg)
      with Some lo hi show ?thesis
        by (simp add: post_transcriptions_def transcribe_open_fails http_exception_handler_def)
    next
      case (WriteFails k msg)
      with Some lo hi show ?thesis
        by (simp add: post_transcriptions_def transcribe_write_fails http_exception_handler_def)
    qed
  qed
  with Some show ?thesis
    by (simp add: health_check_def)
qed

text \<open>C10 on a server that is still loading and on one that is ready.\<close>

theorem readiness_observations_agree_witness:
  "map_of (health_check loading_server) ''ready'' = Some (JBool False)
   \<and> status_code (post_transcriptions loading_server demo_env (speech 4096) ''whisper-1'' ''json'' None None) = 503
   \<and> map_of (health_check demo_server) ''ready'' = Some (JBool True)
   \<and> status_code (post_transcriptions demo_server demo_env (speech 4096) ''whisper-1'' ''json'' None None) \<noteq> 503"
  using readiness_observations_agree [of loading_server demo_env "speech 4096" "''whisper-1''" "''json''" None None]
    readiness_observations_agree [of demo_server demo_env "speech 4096" "''whisper-1''" "''json''" None None]
  by (simp add: health_check_def loading_server_def demo_server_def
      post_transcriptions_def transcribe_not_ready http_exception_handler_def)

end
